theory Spec2Isabelle
  imports Main "HOL-Library.AList"
begin

section \<open>Strings\<close>

text \<open>
  A Python \<open>str\<close> is a sequence of code points. The model uses \<open>string\<close> and reads each
  \<open>char\<close> as the code point of the same number, so it covers the strings over
  U+0000..U+00FF. The three character predicates below are the ones of CPython on that
  range.
\<close>

definition ord :: "char \<Rightarrow> nat" where
  "ord c = of_char c"

text \<open>\<open>str.isspace\<close> on one character: TAB..CR, FS..US, space, NEL and NBSP.\<close>

definition isspace :: "char \<Rightarrow> bool" where
  "isspace c = ((9 \<le> ord c \<and> ord c \<le> 13) \<or> (28 \<le> ord c \<and> ord c \<le> 32)
                 \<or> ord c = 133 \<or> ord c = 160)"

text \<open>
  \<open>str.isdigit\<close> on one character: the decimal digits and the characters with the
  Unicode digit property, which below U+0100 are superscript two, three and one.
\<close>

definition isdigit_char :: "char \<Rightarrow> bool" where
  "isdigit_char c = ((48 \<le> ord c \<and> ord c \<le> 57) \<or> ord c = 178 \<or> ord c = 179 \<or> ord c = 185)"

text \<open>\<open>str.isdigit\<close>: every character is a digit and there is at least one.\<close>

definition isdigit :: "string \<Rightarrow> bool" where
  "isdigit s = (s \<noteq> [] \<and> list_all isdigit_char s)"

text \<open>\<open>str.strip()\<close> removes the whitespace at both ends.\<close>

definition strip :: "string \<Rightarrow> string" where
  "strip s = rev (dropWhile isspace (rev (dropWhile isspace s)))"

text \<open>The ASCII decimal digits, \<open>0\<close> to \<open>9\<close>: the digits the specification speaks of.\<close>

definition ascii_digit :: "char \<Rightarrow> bool" where
  "ascii_digit c = (48 \<le> ord c \<and> ord c \<le> 57)"

section \<open>Errors\<close>

text \<open>
  The exceptions the program raises, with their messages. A function that can raise
  returns \<open>error + 'a\<close>; a method that mutates its object returns the outcome together
  with the object as the call leaves it, also when it raises.
\<close>

datatype error =
    ValueError string
  | KeyError string
  | OverflowError string
  | AttributeError string
  | UnpicklingError string

section \<open>Field validators\<close>

text \<open>
  \<open>Name.__init__\<close> and \<open>Phone.__init__\<close>. The arguments are strings, so the
  \<open>isinstance(value, str)\<close> tests hold. The result is the \<open>value\<close> attribute of the
  constructed field.
\<close>

definition Name :: "string \<Rightarrow> error + string" where
  "Name v = (if strip v = [] then Inl (ValueError ''Name must be a non-empty string.'')
             else Inr (strip v))"

definition Phone :: "string \<Rightarrow> error + string" where
  "Phone phone =
     (if strip phone = [] then Inl (ValueError ''Phone must be a non-empty string.'')
      else let v = strip phone in
        if \<not> isdigit v then Inl (ValueError ''Phone number must contain only digits.'')
        else if length v \<noteq> 10 then Inl (ValueError ''Phone number must be 10 digits long.'')
        else Inr v)"

section \<open>Calendar\<close>

text \<open>
  A \<open>datetime\<close> object: the naive date and time of the standard library, with the
  proleptic Gregorian calendar.
\<close>

record datetime =
  year :: int
  month :: int
  day :: int
  hour :: int
  minute :: int
  second :: int
  microsecond :: int

definition is_leap :: "int \<Rightarrow> bool" where
  "is_leap y = (y mod 4 = 0 \<and> (y mod 100 \<noteq> 0 \<or> y mod 400 = 0))"

definition days_in_month :: "int \<Rightarrow> int \<Rightarrow> int" where
  "days_in_month y m =
     (if m = 2 then (if is_leap y then 29 else 28)
      else if m = 4 \<or> m = 6 \<or> m = 9 \<or> m = 11 then 30 else 31)"

text \<open>
  The days before 1 January of year \<open>y\<close>, and before the first of month \<open>m\<close> in it
  (a table indexed by the month, which is from 1 to 12 in every date that was built).
\<close>

definition days_before_year :: "int \<Rightarrow> int" where
  "days_before_year y = (y - 1) * 365 + (y - 1) div 4 - (y - 1) div 100 + (y - 1) div 400"

definition days_before_month :: "int \<Rightarrow> int \<Rightarrow> int" where
  "days_before_month y m =
     [0, 31, 59, 90, 120, 151, 181, 212, 243, 273, 304, 334] ! nat (m - 1)
       + (if 2 < m \<and> is_leap y then 1 else 0)"

text \<open>\<open>toordinal\<close>: 1 January of year 1 is day 1. \<open>weekday\<close>: Monday is 0, Sunday 6.\<close>

definition toordinal :: "datetime \<Rightarrow> int" where
  "toordinal dt = days_before_year (year dt) + days_before_month (year dt) (month dt) + day dt"

definition weekday :: "datetime \<Rightarrow> int" where
  "weekday dt = (toordinal dt + 6) mod 7"

text \<open>Decimal digits: the last digit of a number, and its last \<open>k\<close> digits.\<close>

definition digit_char :: "nat \<Rightarrow> char" where
  "digit_char n = ''0123456789'' ! (n mod 10)"

fun digits_of :: "nat \<Rightarrow> nat \<Rightarrow> string" where
  "digits_of 0 n = []"
| "digits_of (Suc k) n = digits_of k (n div 10) @ [digit_char n]"

text \<open>\<open>str\<close> of an integer.\<close>

fun str_nat :: "nat \<Rightarrow> string" where
  "str_nat n = (if n < 10 then [digit_char n] else str_nat (n div 10) @ [digit_char n])"

declare str_nat.simps [simp del]

definition str_int :: "int \<Rightarrow> string" where
  "str_int i = (if i < 0 then ''-'' @ str_nat (nat (- i)) else str_nat (nat i))"

text \<open>
  What the constructor of a date checks, in its order: the year, the month, the day.
  The messages are those of CPython 3.12; later versions word them differently.
\<close>

definition check_date_fields :: "int \<Rightarrow> int \<Rightarrow> int \<Rightarrow> error + unit" where
  "check_date_fields y m d =
     (if y < 1 \<or> 9999 < y then Inl (ValueError (''year '' @ str_int y @ '' is out of range''))
      else if m < 1 \<or> 12 < m then Inl (ValueError ''month must be in 1..12'')
      else if d < 1 \<or> days_in_month y m < d then Inl (ValueError ''day is out of range for month'')
      else Inr ())"

text \<open>\<open>dt.replace(year=y)\<close> builds a new object from the fields, so it checks them.\<close>

definition replace_year :: "datetime \<Rightarrow> int \<Rightarrow> error + datetime" where
  "replace_year dt y = (case check_date_fields y (month dt) (day dt) of
       Inl e \<Rightarrow> Inl e
     | Inr _ \<Rightarrow> Inr (dt\<lparr>year := y\<rparr>))"

text \<open>\<open>a < b\<close> compares year, month, day, hour, minute, second, microsecond in turn.\<close>

fun lex_less :: "int list \<Rightarrow> int list \<Rightarrow> bool" where
  "lex_less (x # xs) (y # ys) = (x < y \<or> (x = y \<and> lex_less xs ys))"
| "lex_less _ _ = False"

definition dt_fields :: "datetime \<Rightarrow> int list" where
  "dt_fields dt = [year dt, month dt, day dt, hour dt, minute dt, second dt, microsecond dt]"

definition dt_less :: "datetime \<Rightarrow> datetime \<Rightarrow> bool" where
  "dt_less a b = lex_less (dt_fields a) (dt_fields b)"

text \<open>
  \<open>(a - b).days\<close>: the difference is a \<open>timedelta\<close>, normalised so that its seconds
  and microseconds are not negative; its \<open>days\<close> is the floor of the difference in days.
\<close>

definition microseconds :: "datetime \<Rightarrow> int" where
  "microseconds dt =
     ((toordinal dt * 86400) + hour dt * 3600 + minute dt * 60 + second dt) * 1000000
       + microsecond dt"

definition timedelta_days :: "datetime \<Rightarrow> datetime \<Rightarrow> int" where
  "timedelta_days a b = (microseconds a - microseconds b) div 86400000000"

text \<open>\<open>dt + timedelta(days=n)\<close>, which raises beyond 31 December 9999.\<close>

definition next_day :: "datetime \<Rightarrow> datetime" where
  "next_day dt =
     (if day dt < days_in_month (year dt) (month dt) then dt\<lparr>day := day dt + 1\<rparr>
      else if month dt < 12 then dt\<lparr>month := month dt + 1, day := 1\<rparr>
      else dt\<lparr>year := year dt + 1, month := 1, day := 1\<rparr>)"

fun add_days :: "datetime \<Rightarrow> nat \<Rightarrow> error + datetime" where
  "add_days dt 0 = Inr dt"
| "add_days dt (Suc n) =
     (if 9999 < year (next_day dt) then Inl (OverflowError ''date value out of range'')
      else add_days (next_day dt) n)"

text \<open>\<open>strftime('%d.%m')\<close>: day and month, two digits each.\<close>

definition strftime_dm :: "datetime \<Rightarrow> string" where
  "strftime_dm dt = digits_of 2 (nat (day dt)) @ ''.'' @ digits_of 2 (nat (month dt))"

section \<open>Records\<close>

text \<open>
  A \<open>Record\<close> holds the value of its \<open>Name\<close>, the values of its \<open>Phone\<close> objects in
  order, and the value of its \<open>Birthday\<close> when one is set.
\<close>

record Record =
  name :: string
  phones :: "string list"
  birthday :: "datetime option"

definition Record_init :: "string \<Rightarrow> error + Record" where
  "Record_init n = (case Name n of
       Inl e \<Rightarrow> Inl e
     | Inr v \<Rightarrow> Inr \<lparr>name = v, phones = [], birthday = None\<rparr>)"

definition add_phone :: "Record \<Rightarrow> string \<Rightarrow> (error + unit) \<times> Record" where
  "add_phone r phone = (case Phone phone of
       Inl e \<Rightarrow> (Inl e, r)
     | Inr v \<Rightarrow> (Inr (), r\<lparr>phones := phones r @ [v]\<rparr>))"

definition remove_phone :: "Record \<Rightarrow> string \<Rightarrow> (error + unit) \<times> Record" where
  "remove_phone r phone = (case Phone phone of
       Inl e \<Rightarrow> (Inl e, r)
     | Inr v \<Rightarrow> (Inr (), r\<lparr>phones := filter (\<lambda>p. p \<noteq> v) (phones r)\<rparr>))"

text \<open>\<open>find_phone\<close> returns \<open>None\<close> (Python's \<open>None\<close>) or the stripped argument.\<close>

definition find_phone :: "Record \<Rightarrow> string \<Rightarrow> error + string option" where
  "find_phone r phone =
     (if strip phone = [] then Inl (ValueError ''Phone must be a non-empty string.'')
      else if list_ex (\<lambda>p. p = strip phone) (phones r) then Inr (Some (strip phone))
      else Inr None)"

text \<open>
  The loop of \<open>edit_phone\<close> over \<open>self.phones\<close>: \<open>done\<close> are the phones already passed,
  the second list the ones still to visit. The right-hand side \<open>Phone(new_phone).value\<close>
  is evaluated before the assignment, so when it raises the list is as it was.
\<close>

fun edit_phone_loop ::
  "string list \<Rightarrow> string list \<Rightarrow> string \<Rightarrow> string \<Rightarrow> (error + unit) \<times> string list" where
  "edit_phone_loop done [] old_phone new_phone =
     (Inl (ValueError ''Phone number not found.''), done)"
| "edit_phone_loop done (p # ps) old_phone new_phone =
     (if p = old_phone then
        (case Phone new_phone of
           Inl e \<Rightarrow> (Inl e, done @ p # ps)
         | Inr v \<Rightarrow> (Inr (), done @ v # ps))
      else edit_phone_loop (done @ [p]) ps old_phone new_phone)"

definition edit_phone :: "Record \<Rightarrow> string \<Rightarrow> string \<Rightarrow> (error + unit) \<times> Record" where
  "edit_phone r old_phone new_phone =
     (case edit_phone_loop [] (phones r) old_phone new_phone of
        (res, ps) \<Rightarrow> (res, r\<lparr>phones := ps\<rparr>))"

section \<open>The address book\<close>

text \<open>
  \<open>AddressBook\<close> is a \<open>UserDict\<close>: its \<open>data\<close> is a dictionary, which keeps its keys in
  insertion order. It is an association list here; assigning to a key that is present
  keeps its position, a new key goes to the end.
\<close>

type_synonym AddressBook = "(string \<times> Record) list"

definition add_record :: "AddressBook \<Rightarrow> Record \<Rightarrow> AddressBook" where
  "add_record book record = AList.update (name record) record book"



section \<open>Upcoming birthdays\<close>

text \<open>
  \<open>get_upcoming_birthday\<close> reads the clock once, with \<open>datetime.today()\<close>: the current
  date and the time of day. It is the argument \<open>today\<close> here. A birthday that is set is
  a \<open>Birthday\<close> whose value is a \<open>datetime\<close>, and both are true in Python, so only the test
  \<open>if not user.birthday\<close> can skip a record.
\<close>

definition period_days :: int where
  "period_days = 7"

text \<open>Lines 118 to 122: the birthday in this year, or in the next when that is before \<open>today\<close>.\<close>

definition birthday_this_year :: "datetime \<Rightarrow> datetime \<Rightarrow> error + datetime" where
  "birthday_this_year b today = (case replace_year b (year today) of
       Inl e \<Rightarrow> Inl e
     | Inr d \<Rightarrow> if dt_less d today then replace_year d (year today + 1) else Inr d)"

text \<open>
  Lines 126 to 130: the date moved from Saturday or Sunday to Monday. The loop formats it
  into the local variable \<open>congratulation_date\<close> and does nothing more with it.
\<close>

definition congratulation_date :: "datetime \<Rightarrow> error + datetime" where
  "congratulation_date d =
     (if weekday d = 5 then add_days d 2
      else if weekday d = 6 then add_days d 1
      else Inr d)"

fun upcoming_loop :: "Record list \<Rightarrow> datetime \<Rightarrow> Record list \<Rightarrow> error + Record list" where
  "upcoming_loop [] today upcoming = Inr upcoming"
| "upcoming_loop (user # users) today upcoming =
     (case birthday user of
        None \<Rightarrow> upcoming_loop users today upcoming
      | Some b \<Rightarrow>
          (case birthday_this_year b today of
             Inl e \<Rightarrow> Inl e
           | Inr d \<Rightarrow>
               if timedelta_days d today \<le> period_days then
                 (case congratulation_date d of
                    Inl e \<Rightarrow> Inl e
                  | Inr _ \<Rightarrow> upcoming_loop users today (upcoming @ [user]))
               else upcoming_loop users today upcoming))"

definition get_upcoming_birthday :: "AddressBook \<Rightarrow> datetime \<Rightarrow> error + Record list" where
  "get_upcoming_birthday book today = upcoming_loop (map snd book) today []"

text \<open>
  The decorator \<open>input_error\<close> turns an exception of the command into the text it
  returns.
\<close>

definition usage :: string where
  "usage = ''Invalid input. Format: '' @ [CHR 0x0A] @
     ''            add <name> <phone_number>'' @ [CHR 0x0A] @
     ''            change <name> <old_phone> <new_phone>'' @ [CHR 0x0A] @
     ''            phone <name>'' @ [CHR 0x0A] @
     ''            add-birthday <name> <DD.MM.YYYY>'' @ [CHR 0x0A] @
     ''            show-birthday <name>'' @ [CHR 0x0A] @
     ''            birthdays'' @ [CHR 0x0A] @
     ''            all''"

fun input_error :: "error \<Rightarrow> string" where
  "input_error (ValueError _) = usage"
| "input_error (KeyError _) = ''Contact not found.''"
| "input_error (OverflowError m) = ''An unexpected error occurred: '' @ m"
| "input_error (AttributeError m) = ''An unexpected error occurred: '' @ m"
| "input_error (UnpicklingError m) = ''An unexpected error occurred: '' @ m"

text \<open>
  The command \<open>upcoming_birthdays\<close>: the lines it prints and the value it returns (the
  text of \<open>input_error\<close>, or nothing). \<open>Party\<close> is a line of text between two
  U+1F389 signs, which are not characters of \<open>string\<close>.
\<close>

datatype line = Text string | Party string

fun print_loop :: "Record list \<Rightarrow> line list \<Rightarrow> line list \<times> error option" where
  "print_loop [] out = (out, None)"
| "print_loop (record # upcoming) out =
     (case birthday record of
        None \<Rightarrow> (out, Some (AttributeError
                 ([CHR 0x27] @ ''NoneType'' @ [CHR 0x27] @ '' object has no attribute '' @
                  [CHR 0x27] @ ''value'' @ [CHR 0x27])))
      | Some b \<Rightarrow> print_loop upcoming (out @ [Text (name record @ '': '' @ strftime_dm b)]))"

definition upcoming_birthdays :: "AddressBook \<Rightarrow> datetime \<Rightarrow> line list \<times> string option" where
  "upcoming_birthdays book today = (case get_upcoming_birthday book today of
       Inl e \<Rightarrow> ([], Some (input_error e))
     | Inr upcoming \<Rightarrow>
         (case print_loop upcoming
                 ((if upcoming = [] then [Text ''No upcoming birthdays.''] else []) @
                  [Party ''Upcoming birthdays:'']) of
            (out, None) \<Rightarrow> (out, None)
          | (out, Some e) \<Rightarrow> (out, Some (input_error e))))"

section \<open>Birthdays\<close>

text \<open>
  \<open>datetime.strptime(value, "%d.%m.%Y")\<close> matches the string against the regular
  expression that the library builds from the format,
  \<^verbatim>\<open>(?P<d>3[0-1]|[1-2]\d|0[1-9]|[1-9]| [1-9])\.(?P<m>1[0-2]|0[1-9]|[1-9])\.(?P<Y>\d\d\d\d)\<close>,
  from the start of the string, and takes the first match in the order of backtracking.
  On the characters of \<open>string\<close> the class \<^verbatim>\<open>\d\<close> is \<open>0\<close> to \<open>9\<close>.
\<close>

datatype regex = Lit char | Cls nat nat | Seq regex regex | Alt regex regex

text \<open>
  \<open>rmatch re s\<close>: what is left of \<open>s\<close> after each way of matching \<open>re\<close> at its start, in
  the order in which a backtracking matcher tries them.
\<close>

fun rmatch :: "regex \<Rightarrow> string \<Rightarrow> string list" where
  "rmatch (Lit c) s = (case s of [] \<Rightarrow> [] | x # xs \<Rightarrow> if x = c then [xs] else [])"
| "rmatch (Cls lo hi) s =
     (case s of [] \<Rightarrow> [] | x # xs \<Rightarrow> if lo \<le> ord x \<and> ord x \<le> hi then [xs] else [])"
| "rmatch (Seq a b) s = concat (map (rmatch b) (rmatch a s))"
| "rmatch (Alt a b) s = rmatch a s @ rmatch b s"

text \<open>A group: the text it matched, with what is left.\<close>

definition group :: "regex \<Rightarrow> string \<Rightarrow> (string \<times> string) list" where
  "group re s = map (\<lambda>rest. (take (length s - length rest) s, rest)) (rmatch re s)"

definition re_d :: regex where
  "re_d = Alt (Seq (Lit CHR ''3'') (Cls 48 49))
         (Alt (Seq (Cls 49 50) (Cls 48 57))
         (Alt (Seq (Lit CHR ''0'') (Cls 49 57))
         (Alt (Cls 49 57)
              (Seq (Lit CHR '' '') (Cls 49 57)))))"

definition re_m :: regex where
  "re_m = Alt (Seq (Lit CHR ''1'') (Cls 48 50))
         (Alt (Seq (Lit CHR ''0'') (Cls 49 57))
              (Cls 49 57))"

definition re_Y :: regex where
  "re_Y = Seq (Cls 48 57) (Seq (Cls 48 57) (Seq (Cls 48 57) (Cls 48 57)))"

definition format_match :: "string \<Rightarrow> (string \<times> string \<times> string \<times> string) list" where
  "format_match s =
     concat (map (\<lambda>(d, r1).
       concat (map (\<lambda>r2.
         concat (map (\<lambda>(m, r3).
           concat (map (\<lambda>r4.
             map (\<lambda>(y, r5). (d, m, y, r5)) (group re_Y r4))
           (rmatch (Lit CHR ''.'') r3)))
         (group re_m r2)))
       (rmatch (Lit CHR ''.'') r1)))
     (group re_d s))"

text \<open>\<open>int\<close> of a group: decimal digits, after the white space \<open>int\<close> ignores.\<close>

definition int_of :: "string \<Rightarrow> int" where
  "int_of s = foldl (\<lambda>a c. a * 10 + (int (ord c) - 48)) 0 (strip s)"

text \<open>
  The ways \<open>strptime\<close> fails: the string does not match, text is left after the match,
  or the fields are not a date (with the message of the constructor).
\<close>

datatype strptime_error = NoMatch | Unconverted string | BadDate string

definition strptime :: "string \<Rightarrow> strptime_error + datetime" where
  "strptime s = (case format_match s of
       [] \<Rightarrow> Inl NoMatch
     | (d, m, y, rest) # _ \<Rightarrow>
         if rest \<noteq> [] then Inl (Unconverted rest)
         else (case check_date_fields (int_of y) (int_of m) (int_of d) of
                 Inl (ValueError msg) \<Rightarrow> Inl (BadDate msg)
               | Inl _ \<Rightarrow> Inl (BadDate [])
               | Inr _ \<Rightarrow> Inr \<lparr>year = int_of y, month = int_of m, day = int_of d,
                              hour = 0, minute = 0, second = 0, microsecond = 0\<rparr>))"

text \<open>
  The message of a failure. The one of \<open>NoMatch\<close> is \<open>time data\<close>, the \<open>repr\<close> of the
  string, and \<open>does not match format '%d.%m.%Y'\<close>; the \<open>repr\<close> is not modelled, and
  \<open>Birthday\<close> only asks whether the message contains \<open>does not match format\<close>.
\<close>

fun contains :: "string \<Rightarrow> string \<Rightarrow> bool" where
  "contains sub [] = (sub = [])"
| "contains sub (c # cs) = (take (length sub) (c # cs) = sub \<or> contains sub cs)"

fun says_no_match :: "strptime_error \<Rightarrow> bool" where
  "says_no_match NoMatch = True"
| "says_no_match (Unconverted rest) =
     contains ''does not match format'' (''unconverted data remains: '' @ rest)"
| "says_no_match (BadDate msg) = contains ''does not match format'' msg"

fun message :: "strptime_error \<Rightarrow> string" where
  "message NoMatch = ''does not match format''"
| "message (Unconverted rest) = ''unconverted data remains: '' @ rest"
| "message (BadDate msg) = msg"

text \<open>
  \<open>Birthday.__init__\<close>, with \<open>datetime.now()\<close> as the argument \<open>now\<close>. The \<open>ValueError\<close>
  raised for the range is caught by the handler below it, like those of \<open>strptime\<close>.
\<close>

definition handler :: "strptime_error \<Rightarrow> error" where
  "handler e = (if says_no_match e then ValueError ''Invalid date format. Use DD.MM.YYYY''
                else ValueError (message e))"

definition Birthday :: "string \<Rightarrow> datetime \<Rightarrow> error + datetime" where
  "Birthday v now = (case strptime v of
       Inl e \<Rightarrow> Inl (handler e)
     | Inr d \<Rightarrow>
         if year d < 1900 \<or> dt_less now d
         then Inl (handler (BadDate ''Year must be between 1900 and the current year.''))
         else Inr d)"

definition add_birthday :: "Record \<Rightarrow> string \<Rightarrow> datetime \<Rightarrow> (error + unit) \<times> Record" where
  "add_birthday r v now = (case Birthday v now of
       Inl e \<Rightarrow> (Inl e, r)
     | Inr d \<Rightarrow> (Inr (), r\<lparr>birthday := Some d\<rparr>))"

section \<open>Loading\<close>









section \<open>Notions of the specification\<close>


definition midnight :: "int \<Rightarrow> int \<Rightarrow> int \<Rightarrow> datetime" where
  "midnight y m d = \<lparr>year = y, month = m, day = d, hour = 0, minute = 0, second = 0, microsecond = 0\<rparr>"





text \<open>
  The text of a date in the pattern \<open>DD.MM.YYYY\<close>: two digits, two digits, four digits,
  and the strings of that pattern.
\<close>

definition DD_MM_YYYY :: "int \<Rightarrow> int \<Rightarrow> int \<Rightarrow> string" where
  "DD_MM_YYYY y m d = digits_of 2 (nat d) @ ''.'' @ digits_of 2 (nat m) @ ''.'' @ digits_of 4 (nat y)"

fun in_pattern :: "string \<Rightarrow> bool" where
  "in_pattern [d1, d2, p1, m1, m2, p2, y1, y2, y3, y4] =
     (list_all ascii_digit [d1, d2, m1, m2, y1, y2, y3, y4] \<and> p1 = CHR ''.'' \<and> p2 = CHR ''.'')"
| "in_pattern _ = False"












section \<open>Phones\<close>

lemma Phone_ok_iff:
  "Phone s = Inr v \<longleftrightarrow> (v = strip s \<and> length v = 10 \<and> list_all isdigit_char v)"
  by (auto simp: Phone_def isdigit_def Let_def)

lemma ascii_digit_isdigit: "ascii_digit c \<Longrightarrow> isdigit_char c"
  by (simp add: ascii_digit_def isdigit_char_def)

lemma list_all_ascii_isdigit: "list_all ascii_digit s \<Longrightarrow> list_all isdigit_char s"
  by (induction s) (auto simp: ascii_digit_isdigit)



lemma edit_phone_loop_invalid:
  "Phone new_phone = Inl e \<Longrightarrow>
   edit_phone_loop done ps old_phone new_phone =
     (Inl (if old_phone \<in> set ps then e else ValueError ''Phone number not found.''), done @ ps)"
  by (induction ps arbitrary: "done") auto






section \<open>Digits\<close>

lemma digit_char_cases:
  "n mod 10 = 0 \<or> n mod 10 = 1 \<or> n mod 10 = 2 \<or> n mod 10 = 3 \<or> n mod 10 = 4 \<or> n mod 10 = 5
     \<or> n mod 10 = 6 \<or> n mod 10 = 7 \<or> n mod 10 = 8 \<or> n mod 10 = (9::nat)"
  by arith

lemma ord_digit_char: "ord (digit_char n) = 48 + n mod 10"
  using digit_char_cases [of n] by (elim disjE; simp add: digit_char_def ord_def)



lemma digits_of_2: "digits_of 2 n = [digit_char (n div 10), digit_char n]"
  by (simp add: numeral_2_eq_2)


lemma digits_of_4n:
  "digits_of 4 n = [digit_char (n div 10 div 10 div 10), digit_char (n div 10 div 10),
                    digit_char (n div 10), digit_char n]"
proof -
  have "digits_of (Suc (Suc (Suc (Suc 0)))) n =
     [digit_char (n div 10 div 10 div 10), digit_char (n div 10 div 10), digit_char (n div 10), digit_char n]"
    by simp
  moreover have "(4::nat) = Suc (Suc (Suc (Suc 0)))" by simp
  ultimately show ?thesis by metis
qed

lemma not_space_digit: "48 \<le> ord c \<Longrightarrow> ord c \<le> 57 \<Longrightarrow> \<not> isspace c"
  by (simp add: isspace_def)

lemma not_space_digit_char: "\<not> isspace (digit_char n)"
  by (rule not_space_digit) (simp_all add: ord_digit_char)

lemma mod_10_le_9: "n mod 10 \<le> (9::nat)"
proof -
  have "n mod 10 < 10" by simp
  then show ?thesis by arith
qed








section \<open>The groups of the format\<close>




























section \<open>What \<open>strptime\<close> and \<open>Birthday\<close> accept\<close>











lemma DD_MM_YYYY_in_pattern: "in_pattern (DD_MM_YYYY y m d)"
  by (simp add: DD_MM_YYYY_def digits_of_2 digits_of_4n ascii_digit_def ord_digit_char mod_10_le_9)

section \<open>The claims\<close>

subsection \<open>C1: the window of the upcoming-birthday query\<close>

text \<open>
  C1. The claim: the query includes exactly the records whose projected birthday lies
  from the reference date through the reference date plus \<open>period_days\<close>, so a birthday
  on the reference date is included and one \<open>period_days + 1\<close> days away is not. The
  program compares with \<open>datetime.today()\<close>, which carries the time of day. At noon of
  10 June 2024 a birthday of 10 June is before \<open>today\<close>, moves to 2025 and is left out,
  while a birthday of 18 June, eight days away, is seven days and twelve hours ahead,
  which counts as 7 days, and is included.
\<close>

theorem get_upcoming_birthday_at_noon:
  "get_upcoming_birthday
     [(''Ann'', \<lparr>name = ''Ann'', phones = [], birthday = Some (midnight 1990 6 10)\<rparr>),
      (''Bob'', \<lparr>name = ''Bob'', phones = [], birthday = Some (midnight 1985 6 18)\<rparr>)]
     \<lparr>year = 2024, month = 6, day = 10, hour = 12, minute = 0, second = 0, microsecond = 0\<rparr>
   = Inr [\<lparr>name = ''Bob'', phones = [], birthday = Some (midnight 1985 6 18)\<rparr>]"
  by code_simp

subsection \<open>C2: the congratulation date\<close>

text \<open>
  C2. The claim: for an included record whose projected birthday is a Saturday the
  reported congratulation date is the Monday after, two days later (one day for a
  Sunday), while inclusion uses the unshifted date. The program computes the shifted
  date, here Monday 17 June 2024 for Saturday 15 June, and drops it: the query returns
  the records only, and the command prints day and month of the stored birthday.
\<close>

theorem upcoming_birthdays_prints_stored_day:
  "weekday (midnight 2024 6 15) = 5 \<and>
   congratulation_date (midnight 2024 6 15) = Inr (midnight 2024 6 17) \<and>
   get_upcoming_birthday
     [(''Ann'', \<lparr>name = ''Ann'', phones = [''0501234567''], birthday = Some (midnight 1990 6 15)\<rparr>)]
     \<lparr>year = 2024, month = 6, day = 10, hour = 12, minute = 0, second = 0, microsecond = 0\<rparr>
   = Inr [\<lparr>name = ''Ann'', phones = [''0501234567''], birthday = Some (midnight 1990 6 15)\<rparr>] \<and>
   upcoming_birthdays
     [(''Ann'', \<lparr>name = ''Ann'', phones = [''0501234567''], birthday = Some (midnight 1990 6 15)\<rparr>)]
     \<lparr>year = 2024, month = 6, day = 10, hour = 12, minute = 0, second = 0, microsecond = 0\<rparr>
   = ([Party ''Upcoming birthdays:'', Text ''Ann: 15.06''], None)"
  by code_simp

subsection \<open>C3: phone validation\<close>

text \<open>
  C3, as stated: a string of exactly 10 ASCII digits after trimming is accepted and
  yields that digit string, and a string with a character that is not such a digit, or
  with another number of digits, is refused. The second half fails: \<open>str.isdigit\<close> also
  holds of superscript two (U+00B2), and ten of them are accepted.
\<close>

theorem Phone_accepts_superscript_digits:
  "\<not> list_all ascii_digit (strip [CHR 0xB2, CHR 0xB2, CHR 0xB2, CHR 0xB2, CHR 0xB2, CHR 0xB2, CHR 0xB2, CHR 0xB2, CHR 0xB2, CHR 0xB2]) \<and>
   Phone [CHR 0xB2, CHR 0xB2, CHR 0xB2, CHR 0xB2, CHR 0xB2, CHR 0xB2, CHR 0xB2, CHR 0xB2, CHR 0xB2, CHR 0xB2] = Inr [CHR 0xB2, CHR 0xB2, CHR 0xB2, CHR 0xB2, CHR 0xB2, CHR 0xB2, CHR 0xB2, CHR 0xB2, CHR 0xB2, CHR 0xB2]"
  by code_simp

text \<open>
  C3, amended: a string whose trimmed form is exactly 10 ASCII digits is accepted and
  yields the trimmed form; a string whose trimmed form has a character that
  \<open>str.isdigit\<close> does not hold of, or whose trimmed form is not 10 characters long, is
  refused.
\<close>

theorem Phone_validation:
  "(length (strip s) = 10 \<and> list_all ascii_digit (strip s) \<longrightarrow> Phone s = Inr (strip s)) \<and>
   (\<not> list_all isdigit_char (strip t) \<or> length (strip t) \<noteq> 10 \<longrightarrow> (\<exists>e. Phone t = Inl e))"
  by (cases "Phone t") (auto simp: Phone_ok_iff list_all_ascii_isdigit)

theorem Phone_validation_witness:
  "Phone '' 0501234567 '' = Inr ''0501234567'' \<and>
   (\<exists>e. Phone ''050-123-45'' = Inl e) \<and> (\<exists>e. Phone ''05012345678'' = Inl e)"
proof -
  have s: "strip '' 0501234567 '' = ''0501234567''" by code_simp
  have a: "length ''0501234567'' = 10 \<and> list_all ascii_digit ''0501234567''" by code_simp
  have b: "\<not> list_all isdigit_char (strip ''050-123-45'')" by code_simp
  have c: "length (strip ''05012345678'') \<noteq> 10" by code_simp
  from Phone_validation [of "'' 0501234567 ''" "''050-123-45''"] s a b
  have 1: "Phone '' 0501234567 '' = Inr ''0501234567''" and 2: "\<exists>e. Phone ''050-123-45'' = Inl e"
    by simp_all
  from Phone_validation [of "'' 0501234567 ''" "''05012345678''"] c
  have 3: "\<exists>e. Phone ''05012345678'' = Inl e" by blast
  from 1 2 3 show ?thesis by blast
qed

subsection \<open>C4: birthday validation\<close>




subsection \<open>C5: editing a phone\<close>




subsection \<open>C6: deleting a contact\<close>




subsection \<open>C7: finding a phone\<close>

text \<open>
  C7, as stated: \<open>find_phone\<close> validates its input as a phone, refusing what is not
  exactly 10 ASCII digits, and for a valid input returns the stored value equal to it, or
  nothing. The first half fails: \<open>find_phone\<close> refuses blank input only, and for
  \<open>abc\<close>, which \<open>Phone\<close> refuses, it returns nothing.
\<close>

theorem find_phone_accepts_any_shape:
  "Phone ''abc'' = Inl (ValueError ''Phone number must contain only digits.'') \<and>
   find_phone \<lparr>name = ''Ann'', phones = [''0501234567''], birthday = None\<rparr> ''abc'' = Inr None"
  by code_simp

text \<open>
  C7, amended: \<open>find_phone\<close> refuses the inputs that are blank after trimming and no
  others; for any other input it returns the trimmed input when one of the record's
  phones equals it, else nothing; so for an input that phone validation accepts it
  returns the validated value when the record holds it, else nothing.
\<close>

theorem find_phone_result:
  "(strip blank = [] \<longrightarrow> (\<exists>e. find_phone r blank = Inl e)) \<and>
   (strip s \<noteq> [] \<longrightarrow>
      find_phone r s = Inr (if strip s \<in> set (phones r) then Some (strip s) else None)) \<and>
   (Phone t = Inr v \<longrightarrow>
      find_phone r t = Inr (if v \<in> set (phones r) then Some v else None))"
  by (auto simp: find_phone_def list_ex_iff Phone_ok_iff)

theorem find_phone_result_witness:
  "(\<exists>e. find_phone \<lparr>name = ''Ann'', phones = [''0501234567''], birthday = None\<rparr> ''  '' = Inl e) \<and>
   find_phone \<lparr>name = ''Ann'', phones = [''0501234567''], birthday = None\<rparr> ''abc'' = Inr None \<and>
   find_phone \<lparr>name = ''Ann'', phones = [''0501234567''], birthday = None\<rparr> ''0501234567 ''
     = Inr (Some ''0501234567'')"
proof -
  let ?r = "\<lparr>name = ''Ann'', phones = [''0501234567''], birthday = None\<rparr>"
  have 1: "strip ''  '' = []" by code_simp
  have 2: "strip ''abc'' = ''abc''" by code_simp
  have 3: "Phone ''0501234567 '' = Inr ''0501234567''" by code_simp
  from find_phone_result [where blank = "''  ''" and r = ?r and s = "''abc''"
      and t = "''0501234567 ''" and v = "''0501234567''"] 1 2 3
  show ?thesis by simp
qed

subsection \<open>C8: loading when there is no file\<close>




subsection \<open>C9: a failed edit changes nothing\<close>

text \<open>
  C9. For every record and every new phone that fails phone validation, \<open>edit_phone\<close>
  raises and leaves the record as it was: it raises the error of the validation when
  the record holds the old number, and the not-found error when it does not.
\<close>

theorem edit_phone_invalid_new_phone:
  assumes "Phone new_phone = Inl e"
  shows "edit_phone r old_phone new_phone =
     (Inl (if old_phone \<in> set (phones r) then e else ValueError ''Phone number not found.''), r)"
  using edit_phone_loop_invalid [OF assms, of "[]" "phones r" old_phone]
  by (simp add: edit_phone_def)

theorem edit_phone_invalid_new_phone_witness:
  "edit_phone \<lparr>name = ''Ann'', phones = [''0501234567'', ''0931234567''], birthday = None\<rparr>
       ''0931234567'' ''12345''
     = (Inl (ValueError ''Phone number must be 10 digits long.''),
        \<lparr>name = ''Ann'', phones = [''0501234567'', ''0931234567''], birthday = None\<rparr>)"
proof -
  have 1: "Phone ''12345'' = Inl (ValueError ''Phone number must be 10 digits long.'')"
    by code_simp
  from edit_phone_invalid_new_phone [OF 1,
      of "\<lparr>name = ''Ann'', phones = [''0501234567'', ''0931234567''], birthday = None\<rparr>"
         "''0931234567''"]
  show ?thesis by simp
qed

subsection \<open>C10: the query on 29 February\<close>

text \<open>
  C10. The claim: for a store whose birthdays were accepted by birthday validation the
  upcoming-birthday query returns normally at every reference date, also for a birthday
  of 29 February in a year that is not a leap year. The program moves the birthday into
  the current year with \<open>replace\<close>, which raises for 29 February 2023.
\<close>

theorem get_upcoming_birthday_raises_on_29_february:
  "Birthday ''29.02.2000''
       \<lparr>year = 2023, month = 3, day = 1, hour = 10, minute = 0, second = 0, microsecond = 0\<rparr>
     = Inr (midnight 2000 2 29) \<and>
   get_upcoming_birthday
     [(''Zed'', \<lparr>name = ''Zed'', phones = [], birthday = Some (midnight 2000 2 29)\<rparr>)]
     \<lparr>year = 2023, month = 3, day = 1, hour = 10, minute = 0, second = 0, microsecond = 0\<rparr>
   = Inl (ValueError ''day is out of range for month'')"
  by code_simp

end
